theory Spec2Isabelle
  imports Main "HOL-Library.Sublist"
begin

section \<open>The add-to-project action: \<^verbatim>\<open>src/add-to-project.ts\<close>\<close>

text \<open>
  The action reads its inputs and the webhook payload, filters the issue by label and by
  milestone, parses the project URL, asks the remote GraphQL API for the project's node id
  and then either adds the issue to the project or looks the project item up page by page
  and deletes it.

  JavaScript strings are modelled as \<^typ>\<open>string\<close>; \<open>undefined\<close> and \<open>null\<close> are
  \<^const>\<open>None\<close>; a thrown value is the left summand of a sum type; the log, the remote
  calls and the outputs of a run are recorded in order as a list of events.
\<close>

subsection \<open>String and array primitives of the language\<close>

text \<open>\<^verbatim>\<open>s.split(',')\<close>: the pieces between the separators; the empty string gives one
  empty piece.\<close>

fun split :: "char \<Rightarrow> string \<Rightarrow> string list" where
  "split c [] = [[]]"
| "split c (x # xs) =
     (if x = c then [] # split c xs
      else (case split c xs of
              [] \<Rightarrow> [[x]]
            | y # ys \<Rightarrow> (x # y) # ys))"

text \<open>The white space that \<^verbatim>\<open>trim\<close> strips, as far as it lies in ASCII: tab, line feed,
  vertical tab, form feed, carriage return and space.\<close>

definition isWhiteSpace :: "char \<Rightarrow> bool" where
  "isWhiteSpace c \<longleftrightarrow> c \<in> set [CHR 0x09, CHR 0x0A, CHR 0x0B, CHR 0x0C, CHR 0x0D, CHR '' '']"

definition trim :: "string \<Rightarrow> string" where
  "trim s = rev (dropWhile isWhiteSpace (rev (dropWhile isWhiteSpace s)))"

text \<open>\<^verbatim>\<open>toLowerCase\<close> on ASCII text: the letters A to Z go to a to z, every other
  character stays. \<^verbatim>\<open>toLocaleLowerCase\<close> is the same function there.\<close>

definition lowerChar :: "char \<Rightarrow> char" where
  "lowerChar c =
     (case map_of (zip ''ABCDEFGHIJKLMNOPQRSTUVWXYZ'' ''abcdefghijklmnopqrstuvwxyz'') c of
        None \<Rightarrow> c
      | Some d \<Rightarrow> d)"

definition toLowerCase :: "string \<Rightarrow> string" where
  "toLowerCase s = map lowerChar s"

definition toLocaleLowerCase :: "string \<Rightarrow> string" where
  "toLocaleLowerCase s = toLowerCase s"

text \<open>\<^verbatim>\<open>xs.includes(x)\<close>, \<^verbatim>\<open>xs.every(p)\<close> and \<^verbatim>\<open>xs.some(p)\<close> for a predicate
  that cannot throw.\<close>

primrec includes_of :: "'a list \<Rightarrow> 'a \<Rightarrow> bool" where
  "includes_of [] x = False"
| "includes_of (y # ys) x = (y = x \<or> includes_of ys x)"

primrec every :: "'a list \<Rightarrow> ('a \<Rightarrow> bool) \<Rightarrow> bool" where
  "every [] p = True"
| "every (y # ys) p = (p y \<and> every ys p)"

primrec some :: "'a list \<Rightarrow> ('a \<Rightarrow> bool) \<Rightarrow> bool" where
  "some [] p = False"
| "some (y # ys) p = (p y \<or> some ys p)"

subsection \<open>Thrown values, inputs and payload\<close>

text \<open>What the run can throw: a \<^verbatim>\<open>TypeError\<close> of the language (a property read on
  \<open>undefined\<close>), a \<^verbatim>\<open>ReferenceError\<close> of the language (an identifier read that nothing
  declares), the two \<^verbatim>\<open>new Error(...)\<close> of the file, and whatever a remote call
  rejects with.\<close>

datatype js_error =
    TypeError
  | ReferenceError
  | InvalidProjectUrl string
  | UnsupportedOwnerType "string option"
  | RemoteCallError string

text \<open>The values of \<^verbatim>\<open>core.getInput\<close> for the seven inputs.\<close>

record inputs =
  project_url :: string
  github_token :: string
  labeled_input :: string
  label_operator :: string
  milestoned_input :: string
  remove_unmatched :: string
  fuzzy_match :: string

text \<open>The issue or pull request of the payload: \<^verbatim>\<open>number\<close>, the names of
  \<^verbatim>\<open>labels\<close>, \<^verbatim>\<open>milestone?.title\<close> and \<^verbatim>\<open>node_id\<close>.\<close>

record issue =
  number :: nat
  labels :: "string list"
  milestone :: "string option"
  node_id :: string

subsection \<open>Reading the filters\<close>

definition labeled :: "inputs \<Rightarrow> string list" where
  "labeled ins =
     filter (\<lambda>l. length l > 0)
       (map (\<lambda>l. toLowerCase (trim l)) (split CHR '','' (labeled_input ins)))"

definition labelOperator :: "inputs \<Rightarrow> string" where
  "labelOperator ins = toLocaleLowerCase (trim (label_operator ins))"

definition milestoned :: "inputs \<Rightarrow> string list" where
  "milestoned ins =
     filter (\<lambda>l. length l > 0)
       (map (\<lambda>l. trim l) (split CHR '','' (milestoned_input ins)))"

text \<open>\<^verbatim>\<open>(issue?.labels ?? []).map(l => l.name.toLowerCase())\<close> and
  \<^verbatim>\<open>issue?.milestone?.title\<close>.\<close>

definition issueLabels :: "issue option \<Rightarrow> string list" where
  "issueLabels iss = map toLowerCase (case iss of None \<Rightarrow> [] | Some i \<Rightarrow> labels i)"

definition issueMilestone :: "issue option \<Rightarrow> string option" where
  "issueMilestone iss = (case iss of None \<Rightarrow> None | Some i \<Rightarrow> milestone i)"

subsection \<open>The label filter and the milestone filter\<close>

text \<open>Which statement of the file wrote a log line. The interpolated text of the
  messages is not modelled.\<close>

datatype log_site =
    FuzzyMatchValue | IssueOwner
  | SkipNotAllLabels | SkipHasLabel | SkipNoLabel
  | UsingFuzzyMatching
  | RemovingUnmatchedMilestone | SkippingUnmatchedMilestone
  | ProjectUrl | ProjectOwner | ProjectNumber | ProjectOwnerType
  | ProjectNodeId | ContentId
  | ItemNotFound

text \<open>The three branches on \<^verbatim>\<open>labelOperator\<close>: the result names the message of the
  branch that returns, \<^const>\<open>None\<close> when the issue passes the label filter.\<close>

definition labelFilterSkips :: "inputs \<Rightarrow> issue option \<Rightarrow> log_site option" where
  "labelFilterSkips ins iss =
     (if labelOperator ins = ''and'' then
        (if \<not> every (labeled ins) (\<lambda>l. includes_of (issueLabels iss) l)
         then Some SkipNotAllLabels else None)
      else if labelOperator ins = ''not'' then
        (if length (labeled ins) > 0 \<and> some (issueLabels iss) (\<lambda>l. includes_of (labeled ins) l)
         then Some SkipHasLabel else None)
      else
        (if length (labeled ins) > 0 \<and> \<not> some (issueLabels iss) (\<lambda>l. includes_of (labeled ins) l)
         then Some SkipNoLabel else None))"

definition shouldFuzzyMatch :: "inputs \<Rightarrow> bool" where
  "shouldFuzzyMatch ins \<longleftrightarrow> fuzzy_match ins = ''true'' \<or> fuzzy_match ins = ''True''"

definition removeUnmatched :: "inputs \<Rightarrow> bool" where
  "removeUnmatched ins \<longleftrightarrow> remove_unmatched ins = ''true'' \<or> remove_unmatched ins = ''True''"

text \<open>\<^verbatim>\<open>milestone.startsWith(m)\<close>: reading the method on \<open>undefined\<close> throws.\<close>

definition startsWith :: "string option \<Rightarrow> string \<Rightarrow> js_error + bool" where
  "startsWith milestone' m =
     (case milestone' of None \<Rightarrow> Inl TypeError | Some t \<Rightarrow> Inr (prefix m t))"

text \<open>\<^verbatim>\<open>xs.some(p)\<close> for a predicate that can throw: the elements are tried in order,
  the first \<open>true\<close> or the first throw ends the walk.\<close>

primrec some_throwing :: "'a list \<Rightarrow> ('a \<Rightarrow> js_error + bool) \<Rightarrow> js_error + bool" where
  "some_throwing [] p = Inr False"
| "some_throwing (y # ys) p =
     (case p y of
        Inl e \<Rightarrow> Inl e
      | Inr b \<Rightarrow> if b then Inr True else some_throwing ys p)"

text \<open>The inner function \<^verbatim>\<open>milestoneEnabled\<close>. The array holds strings, so
  \<^verbatim>\<open>includes(undefined)\<close> is \<open>false\<close>.\<close>

definition milestoneEnabled :: "inputs \<Rightarrow> string option \<Rightarrow> js_error + bool" where
  "milestoneEnabled ins milestone' =
     (if \<not> shouldFuzzyMatch ins then Inr (includes_of (map Some (milestoned ins)) milestone')
      else some_throwing (milestoned ins) (\<lambda>m. startsWith milestone' m))"

text \<open>A number of the language, as far as the file makes one: an integer up to \<open>2^53\<close>
  is a double exactly; above, \<^verbatim>\<open>parseInt\<close> gives the double it rounds the digits to, which
  is kept here as the digits it came from.\<close>

datatype js_number = Integer int | Rounded string

text \<open>The four remote calls with the variables the file passes.\<close>

datatype request =
    GetProject string string js_number
  | ProjectIssues string js_number "string option"
  | RemoveIssueFromProject string "string option"
  | AddIssueToProject "string option" "string option"

text \<open>The response of the delete mutation and of the add mutation, with the fields the
  queries select.\<close>

record DeleteProjectNextItemResponse =
  deletedItemId :: string

record AddProjectNextItemResponse =
  projectNextItem_id :: string

text \<open>What \<^verbatim>\<open>core.setOutput\<close> is given: a string, or the response object of the delete
  mutation.\<close>

datatype output_value =
    OutputString string
  | OutputObject DeleteProjectNextItemResponse

datatype event =
    Debug log_site
  | Info log_site
  | Warning log_site
  | Graphql request
  | SetOutput string output_value

text \<open>The first part of \<^verbatim>\<open>addToProject\<close>, up to the milestone filter: it returns
  (\<^verbatim>\<open>return\<close>), goes on with the flag \<^verbatim>\<open>shouldRemove\<close>, or throws.\<close>

datatype filtered = Returned | Proceed bool

definition filterStage :: "inputs \<Rightarrow> issue option \<Rightarrow> event list \<times> (js_error + filtered)" where
  "filterStage ins iss =
     (let log0 = [Debug FuzzyMatchValue, Debug IssueOwner] in
      case labelFilterSkips ins iss of
        Some site \<Rightarrow> (log0 @ [Info site], Inr Returned)
      | None \<Rightarrow>
          (let log1 = log0 @ (if shouldFuzzyMatch ins then [Info UsingFuzzyMatching] else []) in
           if length (milestoned ins) > 0 then
             (case milestoneEnabled ins (issueMilestone iss) of
                Inl e \<Rightarrow> (log1, Inl e)
              | Inr enabled \<Rightarrow>
                  if \<not> enabled then
                    (if removeUnmatched ins
                     then (log1 @ [Info RemovingUnmatchedMilestone], Inr (Proceed True))
                     else (log1 @ [Info SkippingUnmatchedMilestone], Inr Returned))
                  else (log1, Inr (Proceed False)))
           else (log1, Inr (Proceed False))))"

text \<open>The decision of a run: it returns before any remote call (\<open>SKIP\<close>), or it reaches
  the branch \<^verbatim>\<open>if (shouldRemove && issue)\<close> and takes the removal (\<open>REMOVE\<close>) or the
  addition (\<open>ADD\<close>).\<close>

datatype Decision = SKIP | ADD | REMOVE

definition decide :: "inputs \<Rightarrow> issue option \<Rightarrow> js_error + Decision" where
  "decide ins iss =
     (case snd (filterStage ins iss) of
        Inl e \<Rightarrow> Inl e
      | Inr Returned \<Rightarrow> Inr SKIP
      | Inr (Proceed shouldRemove) \<Rightarrow>
          Inr (if shouldRemove \<and> iss \<noteq> None then REMOVE else ADD))"

subsection \<open>The project URL\<close>

text \<open>The named groups of a match of \<^verbatim>\<open>urlParse\<close>.\<close>

record url_groups =
  ownerType :: string
  ownerName :: string
  projectNumber :: string

fun stripPrefix :: "string \<Rightarrow> string \<Rightarrow> string option" where
  "stripPrefix [] s = Some s"
| "stripPrefix (p # ps) [] = None"
| "stripPrefix (p # ps) (x # xs) = (if p = x then stripPrefix ps xs else None)"

definition isDigit :: "char \<Rightarrow> bool" where
  "isDigit c \<longleftrightarrow> c \<in> set ''0123456789''"

text \<open>The pattern after the owner type:
  \<^verbatim>\<open>\/(?<ownerName>[^/]+)\/projects\/(?<projectNumber>\d+)\<close>. The owner name is the
  longest run of characters other than \<open>/\<close> (a shorter run is not followed by \<open>/\<close>), the
  number the longest run of digits; the pattern has no end anchor, so the rest of the
  string is not looked at.\<close>

definition matchOwner :: "string \<Rightarrow> string \<Rightarrow> url_groups option" where
  "matchOwner kind s =
     (case stripPrefix ''/'' s of
        None \<Rightarrow> None
      | Some s1 \<Rightarrow>
          (let name = takeWhile (\<lambda>c. c \<noteq> CHR ''/'') s1 in
           if name = [] then None
           else
             (case stripPrefix ''/projects/'' (dropWhile (\<lambda>c. c \<noteq> CHR ''/'') s1) of
                None \<Rightarrow> None
              | Some s2 \<Rightarrow>
                  (let digits = takeWhile isDigit s2 in
                   if digits = [] then None
                   else Some \<lparr>ownerType = kind, ownerName = name, projectNumber = digits\<rparr>))))"

text \<open>\<^verbatim>\<open>github\.com\/(?<ownerType>orgs|users)\<close> and what follows: the first alternative
  is tried first, the second when the first does not lead to a match.\<close>

definition matchHost :: "string \<Rightarrow> url_groups option" where
  "matchHost s =
     (case stripPrefix ''github.com/'' s of
        None \<Rightarrow> None
      | Some s1 \<Rightarrow>
          (let users = (case stripPrefix ''users'' s1 of
                          None \<Rightarrow> None
                        | Some s2 \<Rightarrow> matchOwner ''users'' s2) in
           case stripPrefix ''orgs'' s1 of
             None \<Rightarrow> users
           | Some s2 \<Rightarrow>
               (case matchOwner ''orgs'' s2 of
                  None \<Rightarrow> users
                | Some g \<Rightarrow> Some g)))"

text \<open>\<^verbatim>\<open>projectUrl.match(urlParse)\<close>: anchored at the start, with the optional
  \<^verbatim>\<open>https://\<close> tried first and left out when the rest does not match after it.\<close>

definition urlParse :: "string \<Rightarrow> url_groups option" where
  "urlParse url =
     (case stripPrefix ''https://'' url of
        None \<Rightarrow> matchHost url
      | Some s \<Rightarrow>
          (case matchHost s of
             None \<Rightarrow> matchHost url
           | Some g \<Rightarrow> Some g))"

definition digitValue :: "char \<Rightarrow> int" where
  "digitValue c =
     (case map_of (zip ''0123456789'' [0, 1, 2, 3, 4, 5, 6, 7, 8, 9]) c of
        None \<Rightarrow> 0
      | Some d \<Rightarrow> d)"

definition decimalValue :: "string \<Rightarrow> int" where
  "decimalValue s = foldl (\<lambda>n c. 10 * n + digitValue c) 0 s"

text \<open>\<^verbatim>\<open>parseInt(digits, 10)\<close> on a string of decimal digits.\<close>

definition parseInt :: "string \<Rightarrow> js_number" where
  "parseInt s =
     (if decimalValue s \<le> 9007199254740992 then Integer (decimalValue s) else Rounded s)"

definition mustGetOwnerTypeQuery :: "string option \<Rightarrow> js_error + string" where
  "mustGetOwnerTypeQuery ownerType' =
     (let ownerTypeQuery =
            (if ownerType' = Some ''orgs'' then Some ''organization''
             else if ownerType' = Some ''users'' then Some ''user''
             else None) in
      case ownerTypeQuery of
        None \<Rightarrow> Inl (UnsupportedOwnerType ownerType')
      | Some q \<Rightarrow> Inr q)"

subsection \<open>The remote API\<close>

text \<open>\<^verbatim>\<open>ProjectNodeIDResponse\<close>: each root that is present holds \<^verbatim>\<open>projectV2.id\<close>.\<close>

record ProjectNodeIDResponse =
  organization :: "string option"
  user :: "string option"

text \<open>\<^verbatim>\<open>idResp[ownerTypeQuery]?.projectV2.id\<close>\<close>

definition projectV2_id :: "ProjectNodeIDResponse \<Rightarrow> string \<Rightarrow> string option" where
  "projectV2_id idResp ownerTypeQuery =
     (if ownerTypeQuery = ''organization'' then organization idResp
      else if ownerTypeQuery = ''user'' then user idResp
      else None)"

text \<open>Modelled from the spec: the types \<^verbatim>\<open>ProjectNextItem\<close> and
  \<^verbatim>\<open>ProjectNextItemResponse\<close> are used by the file and declared nowhere in it. An item
  has its own id and the id of the content it links; a response may lack the
  \<^verbatim>\<open>organization\<close> root and has, below \<^verbatim>\<open>organization.projectNext.items\<close>, the fields
  \<^verbatim>\<open>pageInfo.endCursor\<close>, \<^verbatim>\<open>pageInfo.hasNextPage\<close>, \<^verbatim>\<open>totalCount\<close> and
  \<^verbatim>\<open>nodes\<close> that the query selects.\<close>

record ProjectNextItem =
  item_id :: string
  content_id :: string

record ProjectNextItems =
  endCursor :: "string option"
  hasNextPage :: bool
  totalCount :: nat
  nodes :: "ProjectNextItem list"

record ProjectNextItemResponse =
  items_of_organization :: "ProjectNextItems option"

text \<open>The four calls of \<^verbatim>\<open>octokit.graphql\<close>, each with the variables the file passes. A
  call answers with a response or rejects.\<close>

record remote =
  getProject :: "string \<Rightarrow> string \<Rightarrow> js_number \<Rightarrow> js_error + ProjectNodeIDResponse"
  projectIssues :: "string \<Rightarrow> js_number \<Rightarrow> string option \<Rightarrow> js_error + ProjectNextItemResponse"
  removeIssueFromProject :: "string \<Rightarrow> string option \<Rightarrow> js_error + DeleteProjectNextItemResponse"
  addIssueToProject :: "string option \<Rightarrow> string option \<Rightarrow> js_error + AddProjectNextItemResponse"

subsection \<open>The removal: the pagination loop and the delete mutation\<close>

text \<open>The variables of the page query are \<^verbatim>\<open>{org: ownerName, number: projectNumber,
  after: cursor}\<close>. The file is a module that imports \<^verbatim>\<open>@actions/core\<close> and
  \<^verbatim>\<open>@actions/github\<close> only and declares \<^verbatim>\<open>issueOwnerName\<close> and
  \<^verbatim>\<open>projectOwnerName\<close>, but no \<^verbatim>\<open>ownerName\<close>: reading the identifier throws.\<close>

definition read_ownerName :: "js_error + string" where
  "read_ownerName = Inl ReferenceError"

text \<open>How the \<^verbatim>\<open>while (!item && hasNextPage)\<close> loop is left: something is thrown in the
  body (by the language or by a remote call that rejects), the \<^verbatim>\<open>return\<close> inside the
  body is taken, or the condition fails with the current \<^verbatim>\<open>item\<close>.\<close>

datatype loop_exit =
    Threw js_error
  | ReturnedInside
  | Exited "ProjectNextItem option"

text \<open>The loop, from a state \<^verbatim>\<open>item\<close>, \<^verbatim>\<open>hasNextPage\<close>, \<^verbatim>\<open>cursor\<close> and the events
  so far. In each round the variables of the query are built first, then the query is
  sent. Nothing in the file bounds the number of rounds, so the loop is a partial
  function: \<^const>\<open>None\<close> is a run that never leaves it.\<close>

partial_function (option) whileLoop ::
  "remote \<Rightarrow> js_number \<Rightarrow> string \<Rightarrow> event list \<Rightarrow> ProjectNextItem option \<Rightarrow> bool
     \<Rightarrow> string option \<Rightarrow> (event list \<times> loop_exit) option" where
  "whileLoop rem num issue_node_id evs item hasNext cursor =
     (if item = None \<and> hasNext then
        (case read_ownerName of
           Inl e \<Rightarrow> Some (evs, Threw e)
         | Inr org \<Rightarrow>
             (case projectIssues rem org num cursor of
                Inl e \<Rightarrow> Some (evs @ [Graphql (ProjectIssues org num cursor)], Threw e)
              | Inr response \<Rightarrow>
                  (case items_of_organization response of
                     None \<Rightarrow>
                       Some (evs @ [Graphql (ProjectIssues org num cursor)], ReturnedInside)
                   | Some items \<Rightarrow>
                       whileLoop rem num issue_node_id
                         (evs @ [Graphql (ProjectIssues org num cursor)])
                         (find (\<lambda>n. content_id n = issue_node_id) (nodes items))
                         (hasNextPage items)
                         (endCursor items))))
      else Some (evs, Exited item))"

declare whileLoop.simps [code]

text \<open>The branch \<^verbatim>\<open>if (shouldRemove && issue)\<close>: the loop from \<^verbatim>\<open>item = null\<close>,
  \<^verbatim>\<open>hasNextPage = true\<close>, \<^verbatim>\<open>cursor = null\<close>, the warning when no item was found, else
  the delete mutation, whose whole response is handed to \<^verbatim>\<open>core.setOutput\<close>.\<close>

definition removeFromProject ::
  "remote \<Rightarrow> js_number \<Rightarrow> string option \<Rightarrow> issue \<Rightarrow> (event list \<times> (js_error + unit)) option" where
  "removeFromProject rem num projectId iss =
     (case whileLoop rem num (node_id iss) [] None True None of
        None \<Rightarrow> None
      | Some (evs, Threw e) \<Rightarrow> Some (evs, Inl e)
      | Some (evs, ReturnedInside) \<Rightarrow> Some (evs, Inr ())
      | Some (evs, Exited None) \<Rightarrow> Some (evs @ [Warning ItemNotFound], Inr ())
      | Some (evs, Exited (Some item)) \<Rightarrow>
          (case removeIssueFromProject rem (item_id item) projectId of
             Inl e \<Rightarrow>
               Some (evs @ [Graphql (RemoveIssueFromProject (item_id item) projectId)], Inl e)
           | Inr deletedItemId' \<Rightarrow>
               Some (evs @ [Graphql (RemoveIssueFromProject (item_id item) projectId),
                            SetOutput ''deletedItemId'' (OutputObject deletedItemId')],
                     Inr ())))"

subsection \<open>The addition\<close>

text \<open>The \<^verbatim>\<open>else\<close> branch. The text of the file holds the call twice, one copy inside
  the other; the model is the one call both copies spell: the mutation with
  \<^verbatim>\<open>projectId\<close> and \<^verbatim>\<open>contentId\<close>, then the output \<^verbatim>\<open>itemId\<close>.\<close>

definition addItem ::
  "remote \<Rightarrow> string option \<Rightarrow> string option \<Rightarrow> event list \<times> (js_error + unit)" where
  "addItem rem projectId contentId =
     (case addIssueToProject rem projectId contentId of
        Inl e \<Rightarrow> ([Graphql (AddIssueToProject projectId contentId)], Inl e)
      | Inr addResp \<Rightarrow>
          ([Graphql (AddIssueToProject projectId contentId),
            SetOutput ''itemId'' (OutputString (projectNextItem_id addResp))],
           Inr ()))"

subsection \<open>The run\<close>

text \<open>\<^verbatim>\<open>addToProject\<close>. The inputs, the payload and the remote are arguments. The result
  is the list of events and how the promise settles: rejected with the thrown value, or
  resolved.\<close>

definition addToProject ::
  "inputs \<Rightarrow> issue option \<Rightarrow> remote \<Rightarrow> (event list \<times> (js_error + unit)) option" where
  "addToProject ins iss rem =
     (case filterStage ins iss of
        (log1, Inl e) \<Rightarrow> Some (log1, Inl e)
      | (log1, Inr Returned) \<Rightarrow> Some (log1, Inr ())
      | (log1, Inr (Proceed shouldRemove)) \<Rightarrow>
          (let log2 = log1 @ [Debug ProjectUrl] in
           case urlParse (project_url ins) of
             None \<Rightarrow> Some (log2, Inl (InvalidProjectUrl (project_url ins)))
           | Some urlMatch \<Rightarrow>
               (let projectOwnerName = ownerName urlMatch;
                    projectNumber' = parseInt (projectNumber urlMatch)
                in
                case mustGetOwnerTypeQuery (Some (ownerType urlMatch)) of
                  Inl e \<Rightarrow> Some (log2, Inl e)
                | Inr ownerTypeQuery \<Rightarrow>
                    (let log3 = log2 @ [Debug ProjectOwner, Debug ProjectNumber,
                                        Debug ProjectOwnerType,
                                        Graphql (GetProject ownerTypeQuery projectOwnerName
                                                   projectNumber')]
                     in
                     case getProject rem ownerTypeQuery projectOwnerName projectNumber' of
                       Inl e \<Rightarrow> Some (log3, Inl e)
                     | Inr idResp \<Rightarrow>
                         (let projectId = projectV2_id idResp ownerTypeQuery;
                              contentId = map_option node_id iss;
                              log4 = log3 @ [Debug ProjectNodeId, Debug ContentId]
                          in
                          case (if shouldRemove then iss else None) of
                            Some issue' \<Rightarrow>
                              (case removeFromProject rem projectNumber' projectId issue' of
                                 None \<Rightarrow> None
                               | Some (evs, r) \<Rightarrow> Some (log4 @ evs, r))
                          | None \<Rightarrow>
                              (case addItem rem projectId contentId of
                                 (evs, r) \<Rightarrow> Some (log4 @ evs, r)))))))"

text \<open>The events of a run before the branch on \<^verbatim>\<open>shouldRemove\<close>.\<close>

definition prelude :: "event list \<Rightarrow> string \<Rightarrow> url_groups \<Rightarrow> event list" where
  "prelude log1 ownerTypeQuery g =
     log1 @ [Debug ProjectUrl, Debug ProjectOwner, Debug ProjectNumber, Debug ProjectOwnerType,
             Graphql (GetProject ownerTypeQuery (ownerName g) (parseInt (projectNumber g))),
             Debug ProjectNodeId, Debug ContentId]"

subsection \<open>Remotes for the examples\<close>

text \<open>A remote that answers the project lookup with \<open>idResp\<close>, the page query by
  \<open>pages\<close>, the delete mutation with the id of the deleted item and the add mutation with
  a new item id.\<close>

definition exampleRemote ::
  "ProjectNodeIDResponse \<Rightarrow> (string option \<Rightarrow> js_error + ProjectNextItemResponse) \<Rightarrow> remote" where
  "exampleRemote idResp pages =
     \<lparr>getProject = (\<lambda>ownerTypeQuery owner n. Inr idResp),
      projectIssues = (\<lambda>org n c. pages c),
      removeIssueFromProject = (\<lambda>itemId projectId. Inr \<lparr>deletedItemId = itemId\<rparr>),
      addIssueToProject = (\<lambda>projectId contentId. Inr \<lparr>projectNextItem_id = ''PNI_new''\<rparr>)\<rparr>"

text \<open>One page with an item of id \<open>PNI_2\<close> that links the content \<open>I_5\<close>, and no next
  page.\<close>

definition onePage :: "string option \<Rightarrow> js_error + ProjectNextItemResponse" where
  "onePage c =
     Inr \<lparr>items_of_organization =
            Some \<lparr>endCursor = Some ''Mg'', hasNextPage = False, totalCount = 2,
                  nodes = [\<lparr>item_id = ''PNI_1'', content_id = ''I_4''\<rparr>,
                           \<lparr>item_id = ''PNI_2'', content_id = ''I_5''\<rparr>]\<rparr>\<rparr>"

text \<open>The answer to a page query against a project that is not an organization's.\<close>

definition noOrganization :: "string option \<Rightarrow> js_error + ProjectNextItemResponse" where
  "noOrganization c = Inr \<lparr>items_of_organization = None\<rparr>"

section \<open>Properties\<close>

subsection \<open>The primitives on examples\<close>

lemma split_example: "split CHR '','' ''a, B,,c '' = [''a'', '' B'', '''', ''c '']"
  by simp

lemma urlParse_example:
  "urlParse ''https://github.com/orgs/acme/projects/7/views/1''
   = Some \<lparr>ownerType = ''orgs'', ownerName = ''acme'', projectNumber = ''7''\<rparr>"
  by (simp add: urlParse_def matchHost_def matchOwner_def isDigit_def)

lemma parseInt_example: "parseInt ''1207'' = Integer 1207"
  by (simp add: parseInt_def decimalValue_def digitValue_def)

text \<open>The four scenarios of the specification.\<close>

lemma scenario_or_add:
  "decide
     \<lparr>project_url = '''', github_token = '''', labeled_input = ''bug'', label_operator = ''or'',
      milestoned_input = '''', remove_unmatched = '''', fuzzy_match = ''''\<rparr>
     (Some \<lparr>number = 1, labels = [''bug'', ''urgent''], milestone = None, node_id = ''I_1''\<rparr>)
   = Inr ADD"
  by code_simp

lemma scenario_and_skip:
  "decide
     \<lparr>project_url = '''', github_token = '''', labeled_input = ''bug,urgent'',
      label_operator = ''AND'', milestoned_input = '''', remove_unmatched = '''',
      fuzzy_match = ''''\<rparr>
     (Some \<lparr>number = 1, labels = [''bug''], milestone = None, node_id = ''I_1''\<rparr>)
   = Inr SKIP"
  by code_simp

lemma scenario_fuzzy_add:
  "decide
     \<lparr>project_url = '''', github_token = '''', labeled_input = '''', label_operator = '''',
      milestoned_input = ''v2'', remove_unmatched = ''true'', fuzzy_match = ''true''\<rparr>
     (Some \<lparr>number = 1, labels = [], milestone = Some ''v2.0'', node_id = ''I_1''\<rparr>)
   = Inr ADD"
  by code_simp

lemma scenario_exact_remove:
  "decide
     \<lparr>project_url = '''', github_token = '''', labeled_input = '''', label_operator = '''',
      milestoned_input = ''v2'', remove_unmatched = ''true'', fuzzy_match = ''false''\<rparr>
     (Some \<lparr>number = 1, labels = [], milestone = Some ''v1.0'', node_id = ''I_1''\<rparr>)
   = Inr REMOVE"
  by code_simp

subsection \<open>The array primitives as set operations\<close>

lemma includes_of_set: "includes_of xs x \<longleftrightarrow> x \<in> set xs"
  by (induction xs) auto

lemma every_set: "every xs p \<longleftrightarrow> (\<forall>x\<in>set xs. p x)"
  by (induction xs) auto

lemma some_set: "some xs p \<longleftrightarrow> (\<exists>x\<in>set xs. p x)"
  by (induction xs) auto

lemma toLowerCase_empty: "toLowerCase s = [] \<longleftrightarrow> s = []"
  by (simp add: toLowerCase_def)

lemma set_labeled:
  "set (labeled ins) =
     (\<lambda>e. toLowerCase (trim e)) ` {e \<in> set (split CHR '','' (labeled_input ins)). trim e \<noteq> []}"
  by (auto simp: labeled_def toLowerCase_empty)

lemma set_milestoned:
  "set (milestoned ins) =
     trim ` {e \<in> set (split CHR '','' (milestoned_input ins)). trim e \<noteq> []}"
  by (auto simp: milestoned_def)

lemma set_issueLabels:
  "set (issueLabels iss) = toLowerCase ` set (case iss of None \<Rightarrow> [] | Some i \<Rightarrow> labels i)"
  by (simp add: issueLabels_def)

subsection \<open>The milestone test\<close>

lemma some_throwing_startsWith:
  "some_throwing xs (\<lambda>m. startsWith (Some t) m) = Inr (\<exists>m\<in>set xs. prefix m t)"
  by (induction xs) (auto simp: startsWith_def)

lemma some_throwing_undefined:
  "xs \<noteq> [] \<Longrightarrow> some_throwing xs (\<lambda>m. startsWith None m) = Inl TypeError"
  by (cases xs) (auto simp: startsWith_def)

lemma milestoneEnabled_title:
  "milestoneEnabled ins (Some t) =
     Inr (if shouldFuzzyMatch ins then \<exists>f\<in>set (milestoned ins). prefix f t
          else t \<in> set (milestoned ins))"
  by (auto simp: milestoneEnabled_def some_throwing_startsWith includes_of_set)

text \<open>Without a milestone the exact test answers \<open>false\<close>; the prefix test throws as soon
  as the filter has an entry to try.\<close>

lemma milestoneEnabled_undefined:
  "milestoneEnabled ins None =
     (if shouldFuzzyMatch ins \<and> milestoned ins \<noteq> [] then Inl TypeError else Inr False)"
  by (auto simp: milestoneEnabled_def some_throwing_undefined includes_of_set)

text \<open>The decision for a payload that has an issue, by the two filters.\<close>

lemma decide_rule:
  "decide ins (Some i) =
     (if labelFilterSkips ins (Some i) \<noteq> None then Inr SKIP
      else if milestoned ins \<noteq> [] then
        (case milestoneEnabled ins (milestone i) of
           Inl e \<Rightarrow> Inl e
         | Inr matches \<Rightarrow>
             if \<not> matches then (if removeUnmatched ins then Inr REMOVE else Inr SKIP)
             else Inr ADD)
      else Inr ADD)"
  by (auto simp: decide_def filterStage_def issueMilestone_def Let_def
           split: option.splits sum.splits)

text \<open>With a milestone on the issue the decision is one of the three values.\<close>

lemma decide_with_milestone:
  "milestone i = Some t \<Longrightarrow>
   decide ins (Some i) =
     Inr (if labelFilterSkips ins (Some i) \<noteq> None then SKIP
          else if milestoned ins \<noteq> [] \<and>
                  \<not> (if shouldFuzzyMatch ins then \<exists>f\<in>set (milestoned ins). prefix f t
                      else t \<in> set (milestoned ins))
          then (if removeUnmatched ins then REMOVE else SKIP)
          else ADD)"
  by (simp add: decide_rule milestoneEnabled_title)

subsection \<open>Claims about the filters\<close>

text \<open>
  C2. The label filter lets the issue pass, under the operator \<open>and\<close>, exactly when every
  entry of the filter is among the issue's labels; under \<open>not\<close>, exactly when the filter is
  empty or none of its entries is among them; under any other operator (the default,
  \<open>or\<close>), exactly when the filter is empty or one of its entries is among them. The
  comparison ignores case: the issue's labels are the lower-cased label names, the filter
  entries the trimmed, lower-cased, non-empty pieces of the input.
\<close>

theorem matchesLabels_operators:
  "(labelOperator ins = ''and'' \<longrightarrow>
      (labelFilterSkips ins iss = None \<longleftrightarrow>
         (\<forall>f\<in>set (labeled ins). f \<in> set (issueLabels iss))))
   \<and> (labelOperator ins = ''not'' \<longrightarrow>
      (labelFilterSkips ins iss = None \<longleftrightarrow>
         labeled ins = [] \<or> (\<forall>f\<in>set (labeled ins). f \<notin> set (issueLabels iss))))
   \<and> (labelOperator ins \<noteq> ''and'' \<and> labelOperator ins \<noteq> ''not'' \<longrightarrow>
      (labelFilterSkips ins iss = None \<longleftrightarrow>
         labeled ins = [] \<or> (\<exists>f\<in>set (labeled ins). f \<in> set (issueLabels iss))))
   \<and> set (issueLabels iss) = toLowerCase ` set (case iss of None \<Rightarrow> [] | Some i \<Rightarrow> labels i)
   \<and> set (labeled ins) =
        (\<lambda>e. toLowerCase (trim e)) `
          {e \<in> set (split CHR '','' (labeled_input ins)). trim e \<noteq> []}"
proof (intro conjI impI)
  assume "labelOperator ins = ''and''"
  then show "labelFilterSkips ins iss = None \<longleftrightarrow>
      (\<forall>f\<in>set (labeled ins). f \<in> set (issueLabels iss))"
    by (simp add: labelFilterSkips_def every_set includes_of_set)
next
  assume "labelOperator ins = ''not''"
  then show "labelFilterSkips ins iss = None \<longleftrightarrow>
      labeled ins = [] \<or> (\<forall>f\<in>set (labeled ins). f \<notin> set (issueLabels iss))"
    by (auto simp: labelFilterSkips_def some_set includes_of_set)
next
  assume "labelOperator ins \<noteq> ''and'' \<and> labelOperator ins \<noteq> ''not''"
  then show "labelFilterSkips ins iss = None \<longleftrightarrow>
      labeled ins = [] \<or> (\<exists>f\<in>set (labeled ins). f \<in> set (issueLabels iss))"
    by (auto simp: labelFilterSkips_def some_set includes_of_set)
next
  show "set (issueLabels iss) = toLowerCase ` set (case iss of None \<Rightarrow> [] | Some i \<Rightarrow> labels i)"
    by (rule set_issueLabels)
next
  show "set (labeled ins) =
      (\<lambda>e. toLowerCase (trim e)) `
        {e \<in> set (split CHR '','' (labeled_input ins)). trim e \<noteq> []}"
    by (rule set_labeled)
qed

text \<open>The three operators on examples: \<open>and\<close> with the filter \<open>bug, urgent\<close> on an issue
  labelled \<open>bug\<close> only; \<open>NOT\<close> with the filter \<open>wontfix\<close> on an issue labelled \<open>Bug\<close>; no
  operator with the filter \<open>BUG\<close> on an issue labelled \<open>Bug\<close> and \<open>urgent\<close>.\<close>

theorem matchesLabels_operators_witness:
  "(labelOperator
      \<lparr>project_url = '''', github_token = '''', labeled_input = ''bug, urgent'',
       label_operator = ''and'', milestoned_input = '''', remove_unmatched = '''',
       fuzzy_match = ''''\<rparr> = ''and''
    \<and> labelFilterSkips
      \<lparr>project_url = '''', github_token = '''', labeled_input = ''bug, urgent'',
       label_operator = ''and'', milestoned_input = '''', remove_unmatched = '''',
       fuzzy_match = ''''\<rparr>
      (Some \<lparr>number = 1, labels = [''bug''], milestone = None, node_id = ''I_1''\<rparr>)
      \<noteq> None)
   \<and> (labelOperator
      \<lparr>project_url = '''', github_token = '''', labeled_input = ''wontfix'',
       label_operator = '' NOT '', milestoned_input = '''', remove_unmatched = '''',
       fuzzy_match = ''''\<rparr> = ''not''
    \<and> labelFilterSkips
      \<lparr>project_url = '''', github_token = '''', labeled_input = ''wontfix'',
       label_operator = '' NOT '', milestoned_input = '''', remove_unmatched = '''',
       fuzzy_match = ''''\<rparr>
      (Some \<lparr>number = 1, labels = [''Bug''], milestone = None, node_id = ''I_1''\<rparr>)
      = None)
   \<and> (labelOperator
      \<lparr>project_url = '''', github_token = '''', labeled_input = ''BUG'',
       label_operator = '''', milestoned_input = '''', remove_unmatched = '''',
       fuzzy_match = ''''\<rparr> = ''''
    \<and> labelFilterSkips
      \<lparr>project_url = '''', github_token = '''', labeled_input = ''BUG'',
       label_operator = '''', milestoned_input = '''', remove_unmatched = '''',
       fuzzy_match = ''''\<rparr>
      (Some \<lparr>number = 1, labels = [''Bug'', ''urgent''], milestone = None, node_id = ''I_1''\<rparr>)
      = None)"
  (is "(labelOperator ?A = _ \<and> labelFilterSkips ?A ?I \<noteq> _)
     \<and> (labelOperator ?B = _ \<and> labelFilterSkips ?B ?J = _)
     \<and> (labelOperator ?C = _ \<and> labelFilterSkips ?C ?K = _)")
proof -
  have a: "labelOperator ?A = ''and''"
    and b: "labelOperator ?B = ''not''"
    and c: "labelOperator ?C \<noteq> ''and'' \<and> labelOperator ?C \<noteq> ''not''" "labelOperator ?C = ''''"
    by code_simp+
  have la: "labeled ?A = [''bug'', ''urgent'']" and ia: "issueLabels ?I = [''bug'']"
    and lb: "labeled ?B = [''wontfix'']" and ib: "issueLabels ?J = [''bug'']"
    and lc: "labeled ?C = [''bug'']" and ic: "issueLabels ?K = [''bug'', ''urgent'']"
    by code_simp+
  have "labelFilterSkips ?A ?I = None \<longleftrightarrow>
      (\<forall>f\<in>set (labeled ?A). f \<in> set (issueLabels ?I))"
    using matchesLabels_operators[of ?A ?I] a by blast
  moreover have "\<not> (\<forall>f\<in>set (labeled ?A). f \<in> set (issueLabels ?I))"
    by (simp only: la ia) simp
  ultimately have sa: "labelFilterSkips ?A ?I \<noteq> None"
    by blast
  have "labelFilterSkips ?B ?J = None \<longleftrightarrow>
      labeled ?B = [] \<or> (\<forall>f\<in>set (labeled ?B). f \<notin> set (issueLabels ?J))"
    using matchesLabels_operators[of ?B ?J] b by blast
  moreover have "\<forall>f\<in>set (labeled ?B). f \<notin> set (issueLabels ?J)"
    by (simp only: lb ib) simp
  ultimately have sb: "labelFilterSkips ?B ?J = None"
    by blast
  have "labelFilterSkips ?C ?K = None \<longleftrightarrow>
      labeled ?C = [] \<or> (\<exists>f\<in>set (labeled ?C). f \<in> set (issueLabels ?K))"
    using matchesLabels_operators[of ?C ?K] c(1) by blast
  moreover have "\<exists>f\<in>set (labeled ?C). f \<in> set (issueLabels ?K)"
    by (simp only: lc ic) simp
  ultimately have sc: "labelFilterSkips ?C ?K = None"
    by blast
  show ?thesis
    using a b c(2) sa sb sc by blast
qed

text \<open>
  C3. For a milestone title \<open>t\<close> the milestone test answers, without fuzzy matching,
  whether \<open>t\<close> is an entry of the filter and, with fuzzy matching, whether some entry of
  the filter is a prefix of \<open>t\<close>. An empty filter imposes no constraint: the decision is
  then the one of the label filter alone, whatever the milestone.
\<close>

theorem matchesMilestone_modes:
  "(\<not> shouldFuzzyMatch ins \<longrightarrow>
      milestoneEnabled ins (Some t) = Inr (t \<in> set (milestoned ins)))
   \<and> (shouldFuzzyMatch ins \<longrightarrow>
      milestoneEnabled ins (Some t) = Inr (\<exists>f\<in>set (milestoned ins). prefix f t))
   \<and> (milestoned ins = [] \<longrightarrow>
      decide ins iss = Inr (if labelFilterSkips ins iss = None then ADD else SKIP))"
  by (auto simp: milestoneEnabled_title decide_def filterStage_def Let_def
           split: option.splits)

text \<open>The milestone \<open>v2.0\<close> against the filter \<open>v2\<close>: no match without fuzzy matching, a
  match with it; and an empty filter on an issue without milestone.\<close>

theorem matchesMilestone_modes_witness:
  "(\<not> shouldFuzzyMatch
        \<lparr>project_url = '''', github_token = '''', labeled_input = '''',
         label_operator = '''', milestoned_input = ''v2'', remove_unmatched = '''',
         fuzzy_match = ''false''\<rparr>
    \<and> milestoneEnabled
        \<lparr>project_url = '''', github_token = '''', labeled_input = '''',
         label_operator = '''', milestoned_input = ''v2'', remove_unmatched = '''',
         fuzzy_match = ''false''\<rparr> (Some ''v2.0'') = Inr False)
   \<and> (shouldFuzzyMatch
        \<lparr>project_url = '''', github_token = '''', labeled_input = '''',
         label_operator = '''', milestoned_input = ''v2'', remove_unmatched = '''',
         fuzzy_match = ''true''\<rparr>
    \<and> milestoneEnabled
        \<lparr>project_url = '''', github_token = '''', labeled_input = '''',
         label_operator = '''', milestoned_input = ''v2'', remove_unmatched = '''',
         fuzzy_match = ''true''\<rparr> (Some ''v2.0'') = Inr True)
   \<and> (milestoned
        \<lparr>project_url = '''', github_token = '''', labeled_input = '''',
         label_operator = '''', milestoned_input = '' , '', remove_unmatched = ''true'',
         fuzzy_match = ''true''\<rparr> = []
    \<and> decide
        \<lparr>project_url = '''', github_token = '''', labeled_input = '''',
         label_operator = '''', milestoned_input = '' , '', remove_unmatched = ''true'',
         fuzzy_match = ''true''\<rparr>
        (Some \<lparr>number = 1, labels = [], milestone = None, node_id = ''I_1''\<rparr>) = Inr ADD)"
  (is "(\<not> shouldFuzzyMatch ?A \<and> milestoneEnabled ?A ?t = _)
     \<and> (shouldFuzzyMatch ?B \<and> milestoneEnabled ?B ?t = _)
     \<and> (milestoned ?C = [] \<and> decide ?C ?I = _)")
proof -
  have a: "\<not> shouldFuzzyMatch ?A" and b: "shouldFuzzyMatch ?B" and c: "milestoned ?C = []"
    by code_simp+
  have ma: "milestoned ?A = [''v2'']" and mb: "milestoned ?B = [''v2'']"
    and lc: "labelFilterSkips ?C ?I = None"
    by code_simp+
  have "milestoneEnabled ?A (Some ''v2.0'') = Inr (''v2.0'' \<in> set (milestoned ?A))"
    using matchesMilestone_modes[of ?A "''v2.0''"] a by blast
  then have ra: "milestoneEnabled ?A (Some ''v2.0'') = Inr False"
    by (simp only: ma) simp
  have "milestoneEnabled ?B (Some ''v2.0'') = Inr (\<exists>f\<in>set (milestoned ?B). prefix f ''v2.0'')"
    using matchesMilestone_modes[of ?B "''v2.0''"] b by blast
  then have rb: "milestoneEnabled ?B (Some ''v2.0'') = Inr True"
    by (simp only: mb) simp
  have "decide ?C ?I = Inr (if labelFilterSkips ?C ?I = None then ADD else SKIP)"
    using matchesMilestone_modes[of ?C "''v2.0''" ?I] c by blast
  then have rc: "decide ?C ?I = Inr ADD"
    by (simp only: lc) simp
  show ?thesis
    using a b c ra rb rc by blast
qed

text \<open>
  C10. The milestone test is case-sensitive in both modes: the entries it compares are
  the trimmed, non-empty pieces of the input as they were written, and the title is taken
  as it is (equal to an entry, or having an entry as a prefix). The label test lower-cases
  both sides: the label names of the issue and the trimmed pieces of the input.
\<close>

theorem milestone_match_case_sensitive:
  "(\<not> shouldFuzzyMatch ins \<longrightarrow>
      milestoneEnabled ins (Some t) =
        Inr (\<exists>e\<in>set (split CHR '','' (milestoned_input ins)). trim e \<noteq> [] \<and> trim e = t))
   \<and> (shouldFuzzyMatch ins \<longrightarrow>
      milestoneEnabled ins (Some t) =
        Inr (\<exists>e\<in>set (split CHR '','' (milestoned_input ins)).
               trim e \<noteq> [] \<and> prefix (trim e) t))
   \<and> (includes_of (issueLabels (Some i)) l \<longleftrightarrow> (\<exists>n\<in>set (labels i). toLowerCase n = l))
   \<and> (includes_of (labeled ins) l \<longleftrightarrow>
        (\<exists>e\<in>set (split CHR '','' (labeled_input ins)).
           trim e \<noteq> [] \<and> toLowerCase (trim e) = l))"
proof (intro conjI impI)
  assume "\<not> shouldFuzzyMatch ins"
  then show "milestoneEnabled ins (Some t) =
      Inr (\<exists>e\<in>set (split CHR '','' (milestoned_input ins)). trim e \<noteq> [] \<and> trim e = t)"
    by (auto simp: milestoneEnabled_title set_milestoned)
next
  assume "shouldFuzzyMatch ins"
  then show "milestoneEnabled ins (Some t) =
      Inr (\<exists>e\<in>set (split CHR '','' (milestoned_input ins)).
             trim e \<noteq> [] \<and> prefix (trim e) t)"
    by (auto simp: milestoneEnabled_title set_milestoned)
next
  show "includes_of (issueLabels (Some i)) l \<longleftrightarrow> (\<exists>n\<in>set (labels i). toLowerCase n = l)"
    by (auto simp: includes_of_set set_issueLabels)
next
  show "includes_of (labeled ins) l \<longleftrightarrow>
      (\<exists>e\<in>set (split CHR '','' (labeled_input ins)).
         trim e \<noteq> [] \<and> toLowerCase (trim e) = l)"
    by (auto simp: includes_of_set set_labeled)
qed

text \<open>The filter \<open>V2\<close> does not match the title \<open>v2\<close>, exactly or as a prefix, while the
  label filter \<open>BUG\<close> finds the label \<open>Bug\<close>.\<close>

theorem milestone_match_case_sensitive_witness:
  "(\<not> shouldFuzzyMatch
        \<lparr>project_url = '''', github_token = '''', labeled_input = '' BUG'',
         label_operator = '''', milestoned_input = '' V2 '', remove_unmatched = '''',
         fuzzy_match = ''''\<rparr>
    \<and> milestoneEnabled
        \<lparr>project_url = '''', github_token = '''', labeled_input = '' BUG'',
         label_operator = '''', milestoned_input = '' V2 '', remove_unmatched = '''',
         fuzzy_match = ''''\<rparr> (Some ''v2'') = Inr False)
   \<and> (shouldFuzzyMatch
        \<lparr>project_url = '''', github_token = '''', labeled_input = '' BUG'',
         label_operator = '''', milestoned_input = '' V2 '', remove_unmatched = '''',
         fuzzy_match = ''True''\<rparr>
    \<and> milestoneEnabled
        \<lparr>project_url = '''', github_token = '''', labeled_input = '' BUG'',
         label_operator = '''', milestoned_input = '' V2 '', remove_unmatched = '''',
         fuzzy_match = ''True''\<rparr> (Some ''v2.0'') = Inr False)
   \<and> includes_of
        (issueLabels (Some \<lparr>number = 1, labels = [''Bug''], milestone = None, node_id = ''I_1''\<rparr>))
        ''bug''
   \<and> includes_of
        (labeled
           \<lparr>project_url = '''', github_token = '''', labeled_input = '' BUG'',
            label_operator = '''', milestoned_input = '' V2 '', remove_unmatched = '''',
            fuzzy_match = ''''\<rparr>)
        ''bug''"
  (is "(\<not> shouldFuzzyMatch ?A \<and> milestoneEnabled ?A _ = _)
     \<and> (shouldFuzzyMatch ?B \<and> milestoneEnabled ?B _ = _)
     \<and> includes_of (issueLabels (Some ?I)) _ \<and> includes_of (labeled ?A) _")
proof -
  have a: "\<not> shouldFuzzyMatch ?A" and b: "shouldFuzzyMatch ?B"
    by code_simp+
  have ea: "\<not> (\<exists>e\<in>set (split CHR '','' (milestoned_input ?A)).
                 trim e \<noteq> [] \<and> trim e = ''v2'')"
    and eb: "\<not> (\<exists>e\<in>set (split CHR '','' (milestoned_input ?B)).
                 trim e \<noteq> [] \<and> prefix (trim e) ''v2.0'')"
    and ei: "\<exists>n\<in>set (labels ?I). toLowerCase n = ''bug''"
    and el: "\<exists>e\<in>set (split CHR '','' (labeled_input ?A)).
               trim e \<noteq> [] \<and> toLowerCase (trim e) = ''bug''"
    by code_simp+
  have "milestoneEnabled ?A (Some ''v2'') =
      Inr (\<exists>e\<in>set (split CHR '','' (milestoned_input ?A)). trim e \<noteq> [] \<and> trim e = ''v2'')"
    using milestone_match_case_sensitive[of ?A "''v2''"] a by blast
  then have ra: "milestoneEnabled ?A (Some ''v2'') = Inr False"
    using ea by (simp only: simp_thms)
  have "milestoneEnabled ?B (Some ''v2.0'') =
      Inr (\<exists>e\<in>set (split CHR '','' (milestoned_input ?B)).
             trim e \<noteq> [] \<and> prefix (trim e) ''v2.0'')"
    using milestone_match_case_sensitive[of ?B "''v2.0''"] b by blast
  then have rb: "milestoneEnabled ?B (Some ''v2.0'') = Inr False"
    using eb by (simp only: simp_thms)
  have "includes_of (issueLabels (Some ?I)) ''bug'' \<longleftrightarrow>
      (\<exists>n\<in>set (labels ?I). toLowerCase n = ''bug'')"
    using milestone_match_case_sensitive[of ?A "''v2''" ?I "''bug''"] by blast
  then have ri: "includes_of (issueLabels (Some ?I)) ''bug''"
    using ei by blast
  have "includes_of (labeled ?A) ''bug'' \<longleftrightarrow>
      (\<exists>e\<in>set (split CHR '','' (labeled_input ?A)).
         trim e \<noteq> [] \<and> toLowerCase (trim e) = ''bug'')"
    using milestone_match_case_sensitive[of ?A "''v2''" ?I "''bug''"] by blast
  then have rl: "includes_of (labeled ?A) ''bug''"
    using el by blast
  show ?thesis
    using a b ra rb ri rl by blast
qed

subsection \<open>The project URL\<close>

text \<open>What \<^const>\<open>stripPrefix\<close>, \<^const>\<open>takeWhile\<close> and \<^const>\<open>dropWhile\<close> do on a
  string that is put together from its pieces.\<close>

lemma stripPrefix_iff: "stripPrefix p s = Some r \<longleftrightarrow> s = p @ r"
  by (induction p s rule: stripPrefix.induct) auto

lemma stripPrefix_append: "stripPrefix p (p @ r) = Some r"
  by (simp add: stripPrefix_iff)

lemma takeWhile_run:
  "(\<forall>x\<in>set xs. P x) \<Longrightarrow> rest = [] \<or> \<not> P (hd rest) \<Longrightarrow> takeWhile P (xs @ rest) = xs"
  by (cases rest) (auto simp: takeWhile_tail)

lemma dropWhile_run:
  "(\<forall>x\<in>set xs. P x) \<Longrightarrow> rest = [] \<or> \<not> P (hd rest) \<Longrightarrow> dropWhile P (xs @ rest) = rest"
  by (cases rest) (auto simp: dropWhile_append)

lemma dropWhile_stops: "dropWhile P xs = [] \<or> \<not> P (hd (dropWhile P xs))"
  using hd_dropWhile by blast

lemma matchOwner_iff:
  "matchOwner kind s = Some g \<longleftrightarrow>
     (\<exists>rest. s = ''/'' @ ownerName g @ ''/projects/'' @ projectNumber g @ rest
        \<and> ownerType g = kind
        \<and> ownerName g \<noteq> [] \<and> CHR ''/'' \<notin> set (ownerName g)
        \<and> projectNumber g \<noteq> [] \<and> (\<forall>c\<in>set (projectNumber g). isDigit c)
        \<and> (rest = [] \<or> \<not> isDigit (hd rest)))"
  (is "?L \<longleftrightarrow> ?R")
proof
  assume ?L
  then obtain s1 s2 where s: "s = ''/'' @ s1"
    and name: "takeWhile (\<lambda>c. c \<noteq> CHR ''/'') s1 \<noteq> []"
    and s2: "dropWhile (\<lambda>c. c \<noteq> CHR ''/'') s1 = ''/projects/'' @ s2"
    and digits: "takeWhile isDigit s2 \<noteq> []"
    and g: "g = \<lparr>ownerType = kind, ownerName = takeWhile (\<lambda>c. c \<noteq> CHR ''/'') s1,
                 projectNumber = takeWhile isDigit s2\<rparr>"
    by (auto simp: matchOwner_def Let_def stripPrefix_iff split: option.splits if_splits)
  have "s1 = takeWhile (\<lambda>c. c \<noteq> CHR ''/'') s1 @ dropWhile (\<lambda>c. c \<noteq> CHR ''/'') s1"
    by simp
  then have s1: "s1 = ownerName g @ ''/projects/'' @ projectNumber g @ dropWhile isDigit s2"
    using s2 g by (metis takeWhile_dropWhile_id url_groups.select_convs(2,3))
  have "CHR ''/'' \<notin> set (ownerName g)"
    using g by (auto dest: set_takeWhileD)
  moreover have "\<forall>c\<in>set (projectNumber g). isDigit c"
    using g by (auto dest: set_takeWhileD)
  moreover have "''/'' @ s1 = ''/'' @ ownerName g @ ''/projects/'' @ projectNumber g @ dropWhile isDigit s2"
    using s1 by (rule arg_cong)
  then have "s = ''/'' @ ownerName g @ ''/projects/'' @ projectNumber g @ dropWhile isDigit s2"
    by (simp only: s)
  moreover have "ownerType g = kind" "ownerName g \<noteq> []" "projectNumber g \<noteq> []"
    using g name digits by simp_all
  moreover note dropWhile_stops[of isDigit s2]
  ultimately show ?R
    by blast
next
  assume ?R
  then obtain rest where s: "s = ''/'' @ ownerName g @ ''/projects/'' @ projectNumber g @ rest"
    and k: "ownerType g = kind"
    and n: "ownerName g \<noteq> []" "CHR ''/'' \<notin> set (ownerName g)"
    and d: "projectNumber g \<noteq> []" "\<forall>c\<in>set (projectNumber g). isDigit c"
    and r: "rest = [] \<or> \<not> isDigit (hd rest)"
    by blast
  have tw: "takeWhile (\<lambda>c. c \<noteq> CHR ''/'') (ownerName g @ ''/projects/'' @ projectNumber g @ rest)
      = ownerName g"
    using n by (intro takeWhile_run) auto
  have dw: "dropWhile (\<lambda>c. c \<noteq> CHR ''/'') (ownerName g @ ''/projects/'' @ projectNumber g @ rest)
      = ''/projects/'' @ projectNumber g @ rest"
    using n by (intro dropWhile_run) auto
  have td: "takeWhile isDigit (projectNumber g @ rest) = projectNumber g"
    using d r by (intro takeWhile_run) auto
  have sp1: "stripPrefix ''/'' s = Some (ownerName g @ ''/projects/'' @ projectNumber g @ rest)"
    unfolding s by (rule stripPrefix_append)
  have sp2: "stripPrefix ''/projects/'' (''/projects/'' @ projectNumber g @ rest)
      = Some (projectNumber g @ rest)"
    by (rule stripPrefix_append)
  have "matchOwner kind s =
      Some \<lparr>ownerType = kind, ownerName = ownerName g, projectNumber = projectNumber g\<rparr>"
    using n(1) d(1)
    by (simp only: matchOwner_def sp1 sp2 tw dw td Let_def option.case if_False)
  also have "\<dots> = Some g"
    using k by simp
  finally show ?L .
qed

lemma matchHost_iff:
  "matchHost s = Some g \<longleftrightarrow>
     (\<exists>s2. s = ''github.com/'' @ ownerType g @ s2 \<and> ownerType g \<in> {''orgs'', ''users''}
        \<and> matchOwner (ownerType g) s2 = Some g)"
  (is "?L \<longleftrightarrow> ?R")
proof
  assume ?L
  then show ?R
    by (auto simp: matchHost_def Let_def stripPrefix_iff matchOwner_iff split: option.splits)
next
  assume ?R
  then obtain s2 where s: "s = ''github.com/'' @ ownerType g @ s2"
    and k: "ownerType g = ''orgs'' \<or> ownerType g = ''users''"
    and m: "matchOwner (ownerType g) s2 = Some g"
    by blast
  from k show ?L
  proof
    assume o: "ownerType g = ''orgs''"
    then show ?L
      using m unfolding matchHost_def s by (simp add: Let_def)
  next
    assume u: "ownerType g = ''users''"
    then show ?L
      using m unfolding matchHost_def s by (simp add: Let_def)
  qed
qed

lemma matchHost_https: "matchHost (''https://'' @ s) = None"
  by (simp add: matchHost_def)

lemma urlParse_iff:
  "urlParse url = Some g \<longleftrightarrow>
     (\<exists>pre s. url = pre @ s \<and> pre \<in> {'''', ''https://''} \<and> matchHost s = Some g)"
  (is "?L \<longleftrightarrow> ?R")
proof
  assume l: ?L
  show ?R
  proof (cases "stripPrefix ''https://'' url")
    case None
    then have "matchHost url = Some g" using l by (simp add: urlParse_def)
    then have "url = '''' @ url \<and> '''' \<in> {'''', ''https://''} \<and> matchHost url = Some g"
      by simp
    then show ?thesis by blast
  next
    case (Some r)
    then have u: "url = ''https://'' @ r" by (simp only: stripPrefix_iff)
    then have "matchHost url = None" by (simp only: matchHost_https)
    then have "matchHost r = Some g"
      using l Some by (simp add: urlParse_def split: option.splits)
    then have "url = ''https://'' @ r \<and> ''https://'' \<in> {'''', ''https://''}
        \<and> matchHost r = Some g"
      using u by simp
    then show ?thesis by blast
  qed
next
  assume ?R
  then obtain pre s where u: "url = pre @ s" and p: "pre = '''' \<or> pre = ''https://''"
    and m: "matchHost s = Some g"
    by blast
  from p show ?L
  proof
    assume "pre = ''''"
    then have us: "url = s" using u by simp
    show ?L
    proof (cases "stripPrefix ''https://'' url")
      case None
      then show ?thesis using m us by (simp add: urlParse_def)
    next
      case (Some r)
      then have "url = ''https://'' @ r" by (simp only: stripPrefix_iff)
      then have "matchHost url = None" by (simp only: matchHost_https)
      then show ?thesis using m us by simp
    qed
  next
    assume "pre = ''https://''"
    then have "stripPrefix ''https://'' url = Some s"
      using u by (simp only: stripPrefix_iff)
    then show ?L using m by (simp add: urlParse_def)
  qed
qed

text \<open>
  C7 (as amended). \<^const>\<open>urlParse\<close> matches exactly the strings that begin with an
  optional \<open>https://\<close>, then \<open>github.com/\<close>, \<open>orgs\<close> or \<open>users\<close>, \<open>/\<close>, a non-empty
  owner name without \<open>/\<close>, \<open>/projects/\<close> and a non-empty run of digits; what follows the
  longest run of digits is not looked at, and no other host is matched. The groups of the
  match are the owner type, the owner name and the digits. The owner type \<open>orgs\<close> gives
  the query root \<open>organization\<close>, \<open>users\<close> gives \<open>user\<close>, any other token throws. When
  the URL does not match, the run is rejected with the invalid-URL error. The project
  number is the decimal value of the digits where that is at most \<open>2^53\<close>; above, it
  is the double the digits round to.
\<close>

theorem urlParse_shape:
  "(urlParse url = Some g \<longleftrightarrow>
      (\<exists>pre rest.
         url = pre @ ''github.com/'' @ ownerType g @ ''/'' @ ownerName g @ ''/projects/''
                 @ projectNumber g @ rest
         \<and> pre \<in> {'''', ''https://''} \<and> ownerType g \<in> {''orgs'', ''users''}
         \<and> ownerName g \<noteq> [] \<and> CHR ''/'' \<notin> set (ownerName g)
         \<and> projectNumber g \<noteq> [] \<and> (\<forall>c\<in>set (projectNumber g). isDigit c)
         \<and> (rest = [] \<or> \<not> isDigit (hd rest))))
   \<and> mustGetOwnerTypeQuery (Some ''orgs'') = Inr ''organization''
   \<and> mustGetOwnerTypeQuery (Some ''users'') = Inr ''user''
   \<and> (t \<noteq> Some ''orgs'' \<and> t \<noteq> Some ''users'' \<longrightarrow>
        mustGetOwnerTypeQuery t = Inl (UnsupportedOwnerType t))
   \<and> (filterStage ins iss = (log1, Inr (Proceed r)) \<and> urlParse (project_url ins) = None \<longrightarrow>
        addToProject ins iss rem =
          Some (log1 @ [Debug ProjectUrl], Inl (InvalidProjectUrl (project_url ins))))
   \<and> (ds \<noteq> [] \<and> (\<forall>c\<in>set ds. isDigit c) \<and> decimalValue ds \<le> 2 ^ 53 \<longrightarrow>
        parseInt ds = Integer (decimalValue ds))
   \<and> decimalValue [] = 0
   \<and> decimalValue (ds @ [d]) = 10 * decimalValue ds + digitValue d"
proof (intro conjI impI)
  show "urlParse url = Some g \<longleftrightarrow>
      (\<exists>pre rest.
         url = pre @ ''github.com/'' @ ownerType g @ ''/'' @ ownerName g @ ''/projects/''
                 @ projectNumber g @ rest
         \<and> pre \<in> {'''', ''https://''} \<and> ownerType g \<in> {''orgs'', ''users''}
         \<and> ownerName g \<noteq> [] \<and> CHR ''/'' \<notin> set (ownerName g)
         \<and> projectNumber g \<noteq> [] \<and> (\<forall>c\<in>set (projectNumber g). isDigit c)
         \<and> (rest = [] \<or> \<not> isDigit (hd rest)))"
    by (simp only: urlParse_iff matchHost_iff matchOwner_iff) blast
next
  show "mustGetOwnerTypeQuery (Some ''orgs'') = Inr ''organization''"
    by (simp add: mustGetOwnerTypeQuery_def)
next
  show "mustGetOwnerTypeQuery (Some ''users'') = Inr ''user''"
    by (simp add: mustGetOwnerTypeQuery_def)
next
  assume "t \<noteq> Some ''orgs'' \<and> t \<noteq> Some ''users''"
  then show "mustGetOwnerTypeQuery t = Inl (UnsupportedOwnerType t)"
    by (simp add: mustGetOwnerTypeQuery_def)
next
  assume "filterStage ins iss = (log1, Inr (Proceed r)) \<and> urlParse (project_url ins) = None"
  then show "addToProject ins iss rem =
      Some (log1 @ [Debug ProjectUrl], Inl (InvalidProjectUrl (project_url ins)))"
    by (simp add: addToProject_def)
next
  assume "ds \<noteq> [] \<and> (\<forall>c\<in>set ds. isDigit c) \<and> decimalValue ds \<le> 2 ^ 53"
  then show "parseInt ds = Integer (decimalValue ds)"
    by (simp add: parseInt_def)
next
  show "decimalValue [] = 0"
    by (simp add: decimalValue_def)
next
  show "decimalValue (ds @ [d]) = 10 * decimalValue ds + digitValue d"
    by (simp add: decimalValue_def)
qed

text \<open>The two URLs of the specification (the second with a view behind the number), a
  URL without owner type in a run that passes the filters, and the owner type
  \<open>teams\<close>.\<close>

theorem urlParse_shape_witness:
  "urlParse ''https://github.com/orgs/acme/projects/7''
     = Some \<lparr>ownerType = ''orgs'', ownerName = ''acme'', projectNumber = ''7''\<rparr>
   \<and> urlParse ''github.com/users/jane/projects/3/views/2''
     = Some \<lparr>ownerType = ''users'', ownerName = ''jane'', projectNumber = ''3''\<rparr>
   \<and> ''7'' \<noteq> [] \<and> isDigit CHR ''7'' \<and> decimalValue ''7'' \<le> 2 ^ 53
   \<and> parseInt ''7'' = Integer 7
   \<and> Some ''teams'' \<noteq> Some ''orgs'' \<and> Some ''teams'' \<noteq> Some ''users''
   \<and> mustGetOwnerTypeQuery (Some ''teams'') = Inl (UnsupportedOwnerType (Some ''teams''))
   \<and> urlParse ''https://github.com/acme/projects/7'' = None
   \<and> addToProject
        \<lparr>project_url = ''https://github.com/acme/projects/7'', github_token = ''t'',
         labeled_input = '''', label_operator = '''', milestoned_input = '''',
         remove_unmatched = '''', fuzzy_match = ''''\<rparr>
        (Some \<lparr>number = 1, labels = [], milestone = None, node_id = ''I_1''\<rparr>)
        \<lparr>getProject = (\<lambda>q n k. Inl (RemoteCallError ''unreachable'')),
         projectIssues = (\<lambda>n k c. Inl (RemoteCallError ''unreachable'')),
         removeIssueFromProject = (\<lambda>i p. Inl (RemoteCallError ''unreachable'')),
         addIssueToProject = (\<lambda>p c. Inl (RemoteCallError ''unreachable''))\<rparr>
     = Some ([Debug FuzzyMatchValue, Debug IssueOwner, Debug ProjectUrl],
             Inl (InvalidProjectUrl ''https://github.com/acme/projects/7''))"
  (is "urlParse ?u1 = Some ?g1 \<and> urlParse ?u2 = Some ?g2 \<and> _ \<and> _ \<and> _ \<and> _ \<and> _ \<and> _ \<and> _
       \<and> urlParse ?u3 = None \<and> addToProject ?ins ?iss ?rem = _")
proof -
  have "?u1 = ''https://'' @ ''github.com/'' @ ownerType ?g1 @ ''/'' @ ownerName ?g1
          @ ''/projects/'' @ projectNumber ?g1 @ ''''
      \<and> ''https://'' \<in> {'''', ''https://''} \<and> ownerType ?g1 \<in> {''orgs'', ''users''}
      \<and> ownerName ?g1 \<noteq> [] \<and> CHR ''/'' \<notin> set (ownerName ?g1)
      \<and> projectNumber ?g1 \<noteq> [] \<and> (\<forall>c\<in>set (projectNumber ?g1). isDigit c)
      \<and> ('''' = [] \<or> \<not> isDigit (hd ''''))"
    by (simp add: isDigit_def)
  then have u1: "urlParse ?u1 = Some ?g1"
    using urlParse_shape[of ?u1 ?g1] by blast
  have "?u2 = '''' @ ''github.com/'' @ ownerType ?g2 @ ''/'' @ ownerName ?g2
          @ ''/projects/'' @ projectNumber ?g2 @ ''/views/2''
      \<and> '''' \<in> {'''', ''https://''} \<and> ownerType ?g2 \<in> {''orgs'', ''users''}
      \<and> ownerName ?g2 \<noteq> [] \<and> CHR ''/'' \<notin> set (ownerName ?g2)
      \<and> projectNumber ?g2 \<noteq> [] \<and> (\<forall>c\<in>set (projectNumber ?g2). isDigit c)
      \<and> (''/views/2'' = [] \<or> \<not> isDigit (hd ''/views/2''))"
    by (simp add: isDigit_def)
  then have u2: "urlParse ?u2 = Some ?g2"
    using urlParse_shape[of ?u2 ?g2] by blast
  have t: "Some ''teams'' \<noteq> Some ''orgs'' \<and> Some ''teams'' \<noteq> Some ''users''"
    by simp
  then have m: "mustGetOwnerTypeQuery (Some ''teams'') = Inl (UnsupportedOwnerType (Some ''teams''))"
    using urlParse_shape[of _ _ "Some ''teams''"] by blast
  have f: "filterStage ?ins ?iss = ([Debug FuzzyMatchValue, Debug IssueOwner], Inr (Proceed False))"
    and u3: "urlParse (project_url ?ins) = None" "urlParse ?u3 = None"
    and d: "decimalValue ''7'' = 7"
    by code_simp+
  have dv: "''7'' \<noteq> [] \<and> (\<forall>c\<in>set ''7''. isDigit c) \<and> decimalValue ''7'' \<le> 2 ^ 53"
    by (simp only: d) (simp add: isDigit_def)
  then have "parseInt ''7'' = Integer (decimalValue ''7'')"
    using urlParse_shape[where ds = "''7''"] by blast
  then have p: "parseInt ''7'' = Integer 7"
    by (simp only: d)
  have "addToProject ?ins ?iss ?rem =
      Some ([Debug FuzzyMatchValue, Debug IssueOwner] @ [Debug ProjectUrl],
            Inl (InvalidProjectUrl (project_url ?ins)))"
    using urlParse_shape[where ins = ?ins and iss = ?iss
                            and ?log1.0 = "[Debug FuzzyMatchValue, Debug IssueOwner]"
                            and r = False and rem = ?rem] f u3(1)
    by blast
  then have a: "addToProject ?ins ?iss ?rem =
      Some ([Debug FuzzyMatchValue, Debug IssueOwner, Debug ProjectUrl],
            Inl (InvalidProjectUrl ''https://github.com/acme/projects/7''))"
    by simp
  have dg: "isDigit CHR ''7''"
    by (simp add: isDigit_def)
  show ?thesis
    using u1 u2 dv dg p t m u3(2) a by blast
qed

text \<open>Not every URL of the shape is matched, and not every other string fails: the same
  path on another host does not match, and digits followed by letters match as the
  digits.\<close>

theorem urlParse_shape_counterexample:
  "urlParse ''https://ghe.example.com/orgs/acme/projects/7'' = None
   \<and> urlParse ''https://github.com/orgs/acme/projects/7xyz''
     = Some \<lparr>ownerType = ''orgs'', ownerName = ''acme'', projectNumber = ''7''\<rparr>"
  by code_simp

subsection \<open>The removal branch\<close>

text \<open>A round of the loop throws while the variables of the query are built, before
  the query is sent: the loop is left in its first round, with the events it was entered
  with.\<close>

lemma whileLoop_throws:
  "whileLoop rem num nid evs None True c = Some (evs, Threw ReferenceError)"
  by (subst whileLoop.simps) (simp add: read_ownerName_def)

lemma removeFromProject_throws:
  "removeFromProject rem num projectId i = Some ([], Inl ReferenceError)"
  by (simp add: removeFromProject_def whileLoop_throws)

subsection \<open>The run, by its stages\<close>

lemma addToProject_branch:
  assumes "filterStage ins iss = (log1, Inr (Proceed shouldRemove))"
    and "urlParse (project_url ins) = Some g"
    and "mustGetOwnerTypeQuery (Some (ownerType g)) = Inr q"
    and "getProject rem q (ownerName g) (parseInt (projectNumber g)) = Inr idResp"
  shows "addToProject ins iss rem =
     (case (if shouldRemove then iss else None) of
        Some i \<Rightarrow> Some (prelude log1 q g, Inl ReferenceError)
      | None \<Rightarrow>
          Some (prelude log1 q g @ fst (addItem rem (projectV2_id idResp q) (map_option node_id iss)),
                snd (addItem rem (projectV2_id idResp q) (map_option node_id iss))))"
  using assms
  by (auto simp: addToProject_def prelude_def Let_def removeFromProject_throws
           split: option.splits prod.splits)

subsection \<open>Claims about the run\<close>



text \<open>
  C6. A removal against a remote whose page holds the item for the issue: the run is
  rejected with a \<^verbatim>\<open>ReferenceError\<close> after the project lookup; there is no page query,
  no warning, no delete mutation and no output.
\<close>

theorem removal_rejects_before_any_query:
  "addToProject
     \<lparr>project_url = ''https://github.com/orgs/acme/projects/7'', github_token = ''t'',
      labeled_input = '''', label_operator = '''', milestoned_input = ''v2'',
      remove_unmatched = ''true'', fuzzy_match = ''''\<rparr>
     (Some \<lparr>number = 5, labels = [], milestone = Some ''v1'', node_id = ''I_5''\<rparr>)
     (exampleRemote \<lparr>organization = Some ''PVT_7'', user = None\<rparr> onePage)
   = Some ([Debug FuzzyMatchValue, Debug IssueOwner, Info RemovingUnmatchedMilestone,
            Debug ProjectUrl, Debug ProjectOwner, Debug ProjectNumber,
            Debug ProjectOwnerType, Graphql (GetProject ''organization'' ''acme'' (Integer 7)),
            Debug ProjectNodeId, Debug ContentId],
           Inl ReferenceError)"
  by code_simp

text \<open>
  C5 (as amended). When the lookup response lacks the owner root, nothing is thrown at
  that step: the project id is \<open>undefined\<close> and a run that takes the addition goes on
  with it, to the add mutation without project id; it is rejected only when that
  mutation rejects, and else resolves with the new item id as its output.
\<close>

theorem missing_project_id_continues:
  "filterStage ins iss = (log1, Inr (Proceed shouldRemove))
   \<and> (shouldRemove \<longrightarrow> iss = None)
   \<and> urlParse (project_url ins) = Some g
   \<and> mustGetOwnerTypeQuery (Some (ownerType g)) = Inr q
   \<and> getProject rem q (ownerName g) (parseInt (projectNumber g)) = Inr idResp
   \<and> projectV2_id idResp q = None
   \<longrightarrow> addToProject ins iss rem =
     (case addIssueToProject rem None (map_option node_id iss) of
        Inl e \<Rightarrow>
          Some (prelude log1 q g
                  @ [Graphql (AddIssueToProject None (map_option node_id iss))],
                Inl e)
      | Inr addResp \<Rightarrow>
          Some (prelude log1 q g
                  @ [Graphql (AddIssueToProject None (map_option node_id iss)),
                     SetOutput ''itemId'' (OutputString (projectNextItem_id addResp))],
                Inr ()))"
proof
  assume a: "filterStage ins iss = (log1, Inr (Proceed shouldRemove))
   \<and> (shouldRemove \<longrightarrow> iss = None)
   \<and> urlParse (project_url ins) = Some g
   \<and> mustGetOwnerTypeQuery (Some (ownerType g)) = Inr q
   \<and> getProject rem q (ownerName g) (parseInt (projectNumber g)) = Inr idResp
   \<and> projectV2_id idResp q = None"
  then have "(if shouldRemove then iss else None) = None"
    by simp
  then show "addToProject ins iss rem =
     (case addIssueToProject rem None (map_option node_id iss) of
        Inl e \<Rightarrow>
          Some (prelude log1 q g
                  @ [Graphql (AddIssueToProject None (map_option node_id iss))],
                Inl e)
      | Inr addResp \<Rightarrow>
          Some (prelude log1 q g
                  @ [Graphql (AddIssueToProject None (map_option node_id iss)),
                     SetOutput ''itemId'' (OutputString (projectNextItem_id addResp))],
                Inr ()))"
    using a addToProject_branch[of ins iss log1 shouldRemove g q rem idResp]
    by (auto simp: addItem_def split: sum.splits)
qed

text \<open>An addition for a user's project whose lookup response has no \<open>user\<close> root: the
  add mutation is sent without project id and the run resolves.\<close>

theorem missing_project_id_continues_witness:
  "filterStage
        \<lparr>project_url = ''https://github.com/users/jane/projects/3'', github_token = ''t'',
         labeled_input = '''', label_operator = '''', milestoned_input = '''',
         remove_unmatched = '''', fuzzy_match = ''''\<rparr>
        (Some \<lparr>number = 5, labels = [], milestone = None, node_id = ''I_5''\<rparr>)
      = ([Debug FuzzyMatchValue, Debug IssueOwner], Inr (Proceed False))
   \<and> urlParse ''https://github.com/users/jane/projects/3''
      = Some \<lparr>ownerType = ''users'', ownerName = ''jane'', projectNumber = ''3''\<rparr>
   \<and> projectV2_id \<lparr>organization = Some ''PVT_7'', user = None\<rparr> ''user'' = None
   \<and> addToProject
        \<lparr>project_url = ''https://github.com/users/jane/projects/3'', github_token = ''t'',
         labeled_input = '''', label_operator = '''', milestoned_input = '''',
         remove_unmatched = '''', fuzzy_match = ''''\<rparr>
        (Some \<lparr>number = 5, labels = [], milestone = None, node_id = ''I_5''\<rparr>)
        (exampleRemote \<lparr>organization = Some ''PVT_7'', user = None\<rparr> noOrganization)
      = Some ([Debug FuzzyMatchValue, Debug IssueOwner,
               Debug ProjectUrl, Debug ProjectOwner, Debug ProjectNumber,
               Debug ProjectOwnerType, Graphql (GetProject ''user'' ''jane'' (Integer 3)),
               Debug ProjectNodeId, Debug ContentId,
               Graphql (AddIssueToProject None (Some ''I_5'')),
               SetOutput ''itemId'' (OutputString ''PNI_new'')],
              Inr ())"
  (is "filterStage ?ins (Some ?i) = (?log1, _) \<and> urlParse ?url = Some ?g
     \<and> projectV2_id ?idResp _ = None \<and> addToProject _ _ ?R = _")
proof -
  have f: "filterStage ?ins (Some ?i) = (?log1, Inr (Proceed False))"
    and u: "urlParse (project_url ?ins) = Some ?g" "urlParse ?url = Some ?g"
    and m: "mustGetOwnerTypeQuery (Some (ownerType ?g)) = Inr ''user''"
    and n: "parseInt (projectNumber ?g) = Integer 3" "parseInt ''3'' = Integer 3"
    and p: "projectV2_id ?idResp ''user'' = None"
    by code_simp+
  have g: "getProject ?R ''user'' (ownerName ?g) (parseInt (projectNumber ?g)) = Inr ?idResp"
    by (simp add: exampleRemote_def)
  have r: "addIssueToProject ?R None c = Inr \<lparr>projectNextItem_id = ''PNI_new''\<rparr>" for c
    by (simp add: exampleRemote_def)
  have "addToProject ?ins (Some ?i) ?R =
      Some (prelude ?log1 ''user'' ?g
              @ [Graphql (AddIssueToProject None (map_option node_id (Some ?i))),
                 SetOutput ''itemId'' (OutputString ''PNI_new'')],
            Inr ())"
    using missing_project_id_continues
            [where ins = ?ins and iss = "Some ?i" and ?log1.0 = ?log1 and shouldRemove = False
               and g = ?g and q = "''user''" and rem = ?R and idResp = ?idResp]
          f u(1) m g p
    by (simp add: r)
  then have a: "addToProject ?ins (Some ?i) ?R
      = Some ([Debug FuzzyMatchValue, Debug IssueOwner,
               Debug ProjectUrl, Debug ProjectOwner, Debug ProjectNumber,
               Debug ProjectOwnerType, Graphql (GetProject ''user'' ''jane'' (Integer 3)),
               Debug ProjectNodeId, Debug ContentId,
               Graphql (AddIssueToProject None (Some ''I_5'')),
               SetOutput ''itemId'' (OutputString ''PNI_new'')],
              Inr ())"
    by (simp only: n prelude_def url_groups.simps issue.simps append.simps option.map)
  show ?thesis
    using f u(2) p a by simp
qed

text \<open>Failing with an error at the lookup is not what happens: with a lookup response
  that has neither root the run resolves, after an add mutation without project id.\<close>

theorem missing_project_id_counterexample:
  "addToProject
     \<lparr>project_url = ''https://github.com/orgs/acme/projects/7'', github_token = ''t'',
      labeled_input = '''', label_operator = '''', milestoned_input = '''',
      remove_unmatched = '''', fuzzy_match = ''''\<rparr>
     (Some \<lparr>number = 5, labels = [], milestone = None, node_id = ''I_5''\<rparr>)
     (exampleRemote \<lparr>organization = None, user = None\<rparr> noOrganization)
   = Some ([Debug FuzzyMatchValue, Debug IssueOwner, Debug ProjectUrl, Debug ProjectOwner,
            Debug ProjectNumber, Debug ProjectOwnerType,
            Graphql (GetProject ''organization'' ''acme'' (Integer 7)),
            Debug ProjectNodeId, Debug ContentId,
            Graphql (AddIssueToProject None (Some ''I_5'')),
            SetOutput ''itemId'' (OutputString ''PNI_new'')],
           Inr ())"
  by code_simp

text \<open>
  C1. The decision follows the rule of the two filters (\<open>decide_rule\<close>,
  \<open>decide_with_milestone\<close>) except where the milestone test throws: an issue without
  milestone that passes the label filter, under fuzzy matching with a non-empty milestone
  filter, gets no decision. With \<^verbatim>\<open>remove-unmatched\<close> set the rule asks for \<open>REMOVE\<close>
  there.
\<close>

theorem decide_throws_without_milestone:
  "decide
     \<lparr>project_url = ''https://github.com/orgs/acme/projects/7'', github_token = ''t'',
      labeled_input = '''', label_operator = '''', milestoned_input = ''v2'',
      remove_unmatched = ''true'', fuzzy_match = ''true''\<rparr>
     (Some \<lparr>number = 5, labels = [''bug''], milestone = None, node_id = ''I_5''\<rparr>)
   = Inl TypeError"
  by code_simp

text \<open>
  C4. The decision is not total: for an issue without milestone, under fuzzy matching
  with a non-empty milestone filter, \<^verbatim>\<open>milestone.startsWith\<close> is read on
  \<open>undefined\<close> and the run is rejected with a \<^verbatim>\<open>TypeError\<close> before any remote call,
  whatever the remote.
\<close>

theorem run_rejects_without_milestone:
  "addToProject
     \<lparr>project_url = ''https://github.com/orgs/acme/projects/7'', github_token = ''t'',
      labeled_input = '''', label_operator = '''', milestoned_input = ''v2'',
      remove_unmatched = '''', fuzzy_match = ''true''\<rparr>
     (Some \<lparr>number = 5, labels = [], milestone = None, node_id = ''I_5''\<rparr>)
     rem
   = Some ([Debug FuzzyMatchValue, Debug IssueOwner, Info UsingFuzzyMatching], Inl TypeError)
   \<and> decide
     \<lparr>project_url = ''https://github.com/orgs/acme/projects/7'', github_token = ''t'',
      labeled_input = '''', label_operator = '''', milestoned_input = ''v2'',
      remove_unmatched = '''', fuzzy_match = ''true''\<rparr>
     (Some \<lparr>number = 5, labels = [], milestone = None, node_id = ''I_5''\<rparr>)
   = Inl TypeError"
  (is "addToProject ?ins ?iss rem = _ \<and> _")
proof -
  have f: "filterStage ?ins ?iss
      = ([Debug FuzzyMatchValue, Debug IssueOwner, Info UsingFuzzyMatching], Inl TypeError)"
    by code_simp
  then show ?thesis
    by (simp add: addToProject_def decide_def)
qed

end
